theory Spec2Isabelle
  imports Complex_Main "HOL-Library.Sublist"
begin

section \<open>Sliding-window rate limiter (security-fixes.js, class RateLimiter)\<close>

text \<open>
  The class keeps \<open>maxRequests\<close>, \<open>windowMs\<close> and the array \<open>requests\<close> of admission
  times. \<open>Date.now()\<close> is an integer number of milliseconds; every method that reads the
  clock takes the reading as the argument \<open>now\<close>.
\<close>

record RateLimiter =
  maxRequests :: int
  windowMs :: int
  requests :: "int list"

definition newRateLimiter :: "int \<Rightarrow> int \<Rightarrow> RateLimiter" where
  "newRateLimiter m w = \<lparr>maxRequests = m, windowMs = w, requests = []\<rparr>"

text \<open>
  \<open>canMakeRequest\<close>: the filter keeps the times with \<open>now - time < windowMs\<close>; the filtered
  array is stored back in both branches; an admitted request pushes \<open>now\<close>.
\<close>

definition canMakeRequest :: "RateLimiter \<Rightarrow> int \<Rightarrow> bool \<times> RateLimiter" where
  "canMakeRequest rl now =
     (let kept = filter (\<lambda>time. now - time < windowMs rl) (requests rl) in
      if int (length kept) \<ge> maxRequests rl
      then (False, rl\<lparr>requests := kept\<rparr>)
      else (True, rl\<lparr>requests := kept @ [now]\<rparr>))"

text \<open>
  \<open>Math.ceil(t / 1000)\<close> on an integer \<open>t\<close>, written with integer division (which rounds
  towards minus infinity in HOL); \<open>ceil_div_real\<close> below relates it to the real ceiling.
\<close>

definition ceil_div :: "int \<Rightarrow> int \<Rightarrow> int" where
  "ceil_div t d = - ((- t) div d)"

text \<open>
  \<open>getTimeUntilReset\<close>: 0 on an empty array; otherwise the oldest time is
  \<open>Math.min(...requests)\<close>, and the result is
  \<open>Math.max(0, Math.ceil((windowMs - (now - oldest)) / 1000))\<close>, a number of seconds.
  The method does not filter the array and does not read \<open>maxRequests\<close>.
\<close>

definition getTimeUntilReset :: "RateLimiter \<Rightarrow> int \<Rightarrow> int" where
  "getTimeUntilReset rl now =
     (if requests rl = [] then 0
      else (let oldestRequest = min_list (requests rl);
                timeUntilReset = windowMs rl - (now - oldestRequest)
            in max 0 (ceil_div timeUntilReset 1000)))"


section \<open>CSRF token service (security-improvements/api-key-encryption.js, class SecurityUtils)\<close>

text \<open>
  \<open>csrfTokens\<close> is a \<open>Map\<close> from the token (a hex string) to the object
  \<open>{sessionId, expiry, used}\<close>; \<open>tokenExpiry\<close> is set to one hour by the constructor.
\<close>

record tokenData =
  sessionId :: string
  expiry :: int
  used :: bool

record SecurityUtils =
  csrfTokens :: "string \<rightharpoonup> tokenData"
  tokenExpiry :: int


text \<open>
  The four errors that \<open>validateCSRFToken\<close> throws, in the order of its tests, each
  with a message of its own: the token is not in the map ("invalid CSRF token"); it is
  marked used ("the CSRF token has already been used"); the clock is past its expiry
  ("the CSRF token has expired"); it is bound to another session ("the session of the
  CSRF token does not match").
\<close>

datatype csrf_error = UnknownToken | AlreadyUsed | Expired | SessionMismatch



text \<open>
  \<open>validateCSRFToken\<close>: a thrown error is \<open>Inl\<close>, the returned \<open>true\<close> is \<open>Inr True\<close>.
  A used or expired token is deleted before the error is thrown; a session mismatch
  leaves the map as it is; success marks the entry used and stores it back.
\<close>

definition validateCSRFToken ::
    "SecurityUtils \<Rightarrow> string \<Rightarrow> string \<Rightarrow> int \<Rightarrow> (csrf_error + bool) \<times> SecurityUtils" where
  "validateCSRFToken su token sid now =
     (case csrfTokens su token of
        None \<Rightarrow> (Inl UnknownToken, su)
      | Some tokenData \<Rightarrow>
          if used tokenData
          then (Inl AlreadyUsed, su\<lparr>csrfTokens := (csrfTokens su)(token := None)\<rparr>)
          else if now > expiry tokenData
          then (Inl Expired, su\<lparr>csrfTokens := (csrfTokens su)(token := None)\<rparr>)
          else if sessionId tokenData \<noteq> sid
          then (Inl SessionMismatch, su)
          else (Inr True,
                su\<lparr>csrfTokens := (csrfTokens su)(token \<mapsto> tokenData\<lparr>used := True\<rparr>)\<rparr>))"







section \<open>Input sanitizer (security-fixes.js, class InputSanitizer)\<close>

text \<open>
  A JavaScript string is a sequence of UTF-16 code units; the model keeps each code unit
  as its number. \<open>js\<close> turns an ASCII literal into such a sequence. A value that is not
  a string is \<open>NotString\<close>.
\<close>

type_synonym jsstring = "nat list"

datatype jsvalue = Str jsstring | NotString

definition js :: "string \<Rightarrow> jsstring" where
  "js s = map of_char s"

text \<open>
  The character classes of the regular expressions, none of which carries the \<open>u\<close>
  flag: \<open>\w\<close> is \<open>[A-Za-z0-9_]\<close>; \<open>\s\<close>, which is also what \<open>trim\<close> removes, is the
  white space and line terminators of ECMAScript; \<open>["']\<close> is the two quotes. Code units
  60 and 62 are \<open><\<close> and \<open>>\<close>, 61 is \<open>=\<close>.
\<close>

definition is_word :: "nat \<Rightarrow> bool" where
  "is_word c \<longleftrightarrow>
     (48 \<le> c \<and> c \<le> 57) \<or> (65 \<le> c \<and> c \<le> 90) \<or> c = 95 \<or> (97 \<le> c \<and> c \<le> 122)"

definition is_space :: "nat \<Rightarrow> bool" where
  "is_space c \<longleftrightarrow>
     (9 \<le> c \<and> c \<le> 13) \<or> c = 32 \<or> c = 160 \<or> c = 5760 \<or> (8192 \<le> c \<and> c \<le> 8202)
     \<or> c = 8232 \<or> c = 8233 \<or> c = 8239 \<or> c = 8287 \<or> c = 12288 \<or> c = 65279"

definition is_quote :: "nat \<Rightarrow> bool" where
  "is_quote c \<longleftrightarrow> c = 34 \<or> c = 39"

text \<open>
  The flag \<open>i\<close> compares canonical forms. The patterns hold ASCII characters only, and
  without the \<open>u\<close> flag a code unit of 128 or more never has an ASCII canonical form, so
  folding \<open>a..z\<close> to \<open>A..Z\<close> and leaving every other code unit alone decides every
  comparison with a pattern character.
\<close>

definition canon :: "nat \<Rightarrow> nat" where
  "canon c = (if 97 \<le> c \<and> c \<le> 122 then c - 32 else c)"

fun prefix_ci :: "jsstring \<Rightarrow> jsstring \<Rightarrow> bool" where
  "prefix_ci [] s = True"
| "prefix_ci (p # ps) [] = False"
| "prefix_ci (p # ps) (c # cs) = (canon p = canon c \<and> prefix_ci ps cs)"

text \<open>
  \<open>s.replace(re, '')\<close> with a global \<open>re\<close>: scanning from the left, the first position
  where \<open>re\<close> matches loses the matched code units and the scan goes on behind them. The
  argument \<open>m\<close> gives the length of the match of \<open>re\<close> at the head of a string, if there
  is one; none of the four expressions looks behind its starting point. A match of
  length 0 (none of the four has one) would delete nothing.
\<close>

function replace_all :: "(jsstring \<Rightarrow> nat option) \<Rightarrow> jsstring \<Rightarrow> jsstring" where
  "replace_all m [] = []"
| "replace_all m (c # cs) =
     (case m (c # cs) of
        None \<Rightarrow> c # replace_all m cs
      | Some n \<Rightarrow>
          if 0 < n then replace_all m (drop (n - 1) cs)
          else c # replace_all m cs)"
  by pat_completeness auto
termination
  by (relation "measure (\<lambda>(m, s). length s)") auto

text \<open>
  \<open>/<script\b[^<]*(?:(?!<\/script>)<[^<]*)*<\/script>/gi\<close>. \<open>close_script\<close> is the part
  \<open>(?:(?!<\/script>)<[^<]*)*<\/script>\<close>, entered where the next code unit is \<open><\<close> or the
  string ends: it ends the match on \<open></script>\<close>, and otherwise takes one \<open><\<close> with the
  run of other code units behind it and goes round again. Backtracking finds nothing
  more: a shorter \<open>[^<]*\<close> stops in front of a code unit that is not \<open><\<close>, and one round
  less stops in front of a \<open><\<close> that does not open \<open></script>\<close>.
  \<open>\b\<close> behind \<open><script\<close> asks for the end of the string or a code unit outside \<open>\w\<close>.
\<close>

function close_script :: "jsstring \<Rightarrow> nat option" where
  "close_script [] = None"
| "close_script (c # cs) =
     (if prefix_ci (js ''</script>'') (c # cs) then Some 9
      else if c = 60
      then (let n = length (takeWhile (\<lambda>x. x \<noteq> 60) cs)
            in map_option (\<lambda>k. 1 + n + k) (close_script (drop n cs)))
      else None)"
  by pat_completeness auto
termination
  by (relation "measure length") auto

definition m_script :: "jsstring \<Rightarrow> nat option" where
  "m_script s =
     (if prefix_ci (js ''<script'') s \<and> (case drop 7 s of [] \<Rightarrow> True | c # _ \<Rightarrow> \<not> is_word c)
      then (let n = length (takeWhile (\<lambda>x. x \<noteq> 60) (drop 7 s))
            in map_option (\<lambda>k. 7 + n + k) (close_script (drop (7 + n) s)))
      else None)"

text \<open>
  \<open>/<[^>]*>/g\<close>: a \<open><\<close>, then everything up to and including the first \<open>>\<close> behind it.
\<close>

definition m_tag :: "jsstring \<Rightarrow> nat option" where
  "m_tag s =
     (case s of
        [] \<Rightarrow> None
      | c # cs \<Rightarrow>
          if c = 60 \<and> 62 \<in> set cs
          then Some (length (takeWhile (\<lambda>x. x \<noteq> 62) cs) + 2)
          else None)"

text \<open>\<open>/javascript:/gi\<close>: eleven code units.\<close>

definition m_jsproto :: "jsstring \<Rightarrow> nat option" where
  "m_jsproto s = (if prefix_ci (js ''javascript:'') s then Some 11 else None)"

text \<open>
  \<open>/on\w+\s*=\s*["'][^"']*["']/gi\<close>: \<open>on\<close>, the longest run \<open>w > 0\<close> of word characters,
  white space, \<open>=\<close>, white space, a quote, the run up to the next quote, and that quote.
  The classes that follow one another are disjoint, so the greedy runs are the only
  way to match.
\<close>

definition m_handler :: "jsstring \<Rightarrow> nat option" where
  "m_handler s =
     (if prefix_ci (js ''on'') s
      then (let r1 = drop 2 s;
                w = length (takeWhile is_word r1);
                r2 = drop w r1;
                s1 = length (takeWhile is_space r2);
                r3 = drop s1 r2
            in if w = 0 then None
               else (case r3 of
                       [] \<Rightarrow> None
                     | e # r4 \<Rightarrow>
                         if e \<noteq> 61 then None
                         else (let s2 = length (takeWhile is_space r4);
                                   r5 = drop s2 r4
                               in (case r5 of
                                     [] \<Rightarrow> None
                                   | q # r6 \<Rightarrow>
                                       if \<not> is_quote q then None
                                       else (let v = length (takeWhile (\<lambda>x. \<not> is_quote x) r6)
                                             in (case drop v r6 of
                                                   [] \<Rightarrow> None
                                                 | q' # r7 \<Rightarrow>
                                                     Some (2 + w + s1 + 1 + s2 + 1 + v + 1)))))))
      else None)"

definition trim :: "jsstring \<Rightarrow> jsstring" where
  "trim s = rev (dropWhile is_space (rev (dropWhile is_space s)))"

text \<open>
  \<open>InputSanitizer.sanitizeText\<close>: the empty string for a value that is not a string;
  otherwise the four replacements in the order of the source, \<open>trim()\<close>, and
  \<open>substring(0, 5000)\<close>.
\<close>

definition sanitizeText :: "jsvalue \<Rightarrow> jsstring" where
  "sanitizeText text =
     (case text of
        NotString \<Rightarrow> []
      | Str s \<Rightarrow>
          take 5000 (trim (replace_all m_handler (replace_all m_jsproto
            (replace_all m_tag (replace_all m_script s))))))"

text \<open>
  A string has no complete tag when no \<open><\<close> in it has a \<open>>\<close> anywhere behind it.
\<close>

fun no_tag :: "jsstring \<Rightarrow> bool" where
  "no_tag [] = True"
| "no_tag (c # cs) = ((c \<noteq> 60 \<or> 62 \<notin> set cs) \<and> no_tag cs)"

section \<open>The synthesis endpoint (secure-server.js)\<close>

text \<open>
  The error texts of the responses, one constructor per literal of the source (the
  literals are Japanese; each is given here by its meaning). \<open>CsrfFailed\<close>, "CSRF
  verification failed", is the body of the 403 response of the CSRF check. The others
  are the \<open>error\<close> texts that \<open>validateInput\<close> returns, in the order of the source:
  "a text is required", "enter a valid text", "the text is too long (5000 characters at
  most)"; "invalid voice type"; "give a speed from 0.25 to 4.0"; "the API key is
  invalid", "the format of the Google Cloud API key is wrong", "the length of the API
  key is wrong", "the API key contains invalid characters".
\<close>

datatype message =
    CsrfFailed
  | TextRequired | TextInvalid | TextTooLong
  | VoiceInvalid
  | SpeedOutOfRange
  | ApiKeyInvalid | ApiKeyFormat | ApiKeyLength | ApiKeyChars

subsection \<open>validateInput\<close>

text \<open>
  \<open>validateInput.text\<close>: a missing, empty or non-string text is refused; the text loses
  its script elements and its tags and is trimmed; an empty result and a result of
  more than 5000 code units are refused. \<open>Inr\<close> carries \<open>sanitized\<close>.
\<close>

definition validateInput_text :: "jsvalue \<Rightarrow> message + jsstring" where
  "validateInput_text text =
     (case text of
        NotString \<Rightarrow> Inl TextRequired
      | Str s \<Rightarrow>
          if s = [] then Inl TextRequired
          else (let sanitized = trim (replace_all m_tag (replace_all m_script s))
                in if length sanitized = 0 then Inl TextInvalid
                   else if length sanitized > 5000 then Inl TextTooLong
                   else Inr sanitized))"

definition allowedVoices :: "string list" where
  "allowedVoices =
     [''ja-JP-Neural2-B'', ''ja-JP-Neural2-C'', ''ja-JP-Neural2-D'',
      ''en-US-Neural2-F'', ''en-US-Neural2-D'']"

definition validateInput_voice :: "string \<Rightarrow> message + unit" where
  "validateInput_voice voice =
     (if voice \<notin> set allowedVoices then Inl VoiceInvalid else Inr ())"

text \<open>
  \<open>validateInput.speed\<close> tests the number that \<open>parseFloat\<close> returns: \<open>NaN\<close>, an
  infinity, or a finite number, kept here as the real number it stands for. 0.25 and 4.0
  are numbers of the machine, so the two comparisons are those of the reals.
\<close>

datatype jsnum = NaN | Finite real | PosInfinity | NegInfinity

definition validateInput_speed :: "jsnum \<Rightarrow> message + unit" where
  "validateInput_speed numSpeed =
     (case numSpeed of
        NaN \<Rightarrow> Inl SpeedOutOfRange
      | Finite r \<Rightarrow> if r < 0.25 \<or> r > 4.0 then Inl SpeedOutOfRange else Inr ()
      | PosInfinity \<Rightarrow> Inl SpeedOutOfRange
      | NegInfinity \<Rightarrow> Inl SpeedOutOfRange)"

text \<open>
  \<open>validateInput.apiKey\<close> tests \<open>!apiKey\<close> first and the type second, so the field
  has three kinds of value: \<open>KeyAbsent\<close> is a missing field or any other falsy value that
  is not a string (\<open>null\<close>, \<open>0\<close>, \<open>false\<close>), \<open>KeyNotString\<close> a truthy value that is not a
  string, \<open>KeyText\<close> a string. The key is optional: a falsy value, the empty string
  among them, is accepted. A truthy value must be a string that starts with \<open>AIza\<close>,
  has 35 to 45 code units, and consists of letters, digits, \<open>_\<close> (95) and \<open>-\<close> (45).
\<close>

datatype keyfield = KeyAbsent | KeyNotString | KeyText jsstring

definition is_key_char :: "nat \<Rightarrow> bool" where
  "is_key_char c \<longleftrightarrow>
     (65 \<le> c \<and> c \<le> 90) \<or> (97 \<le> c \<and> c \<le> 122) \<or> (48 \<le> c \<and> c \<le> 57) \<or> c = 95 \<or> c = 45"

definition validateInput_apiKey :: "keyfield \<Rightarrow> message + unit" where
  "validateInput_apiKey apiKey =
     (case apiKey of
        KeyAbsent \<Rightarrow> Inr ()
      | KeyNotString \<Rightarrow> Inl ApiKeyInvalid
      | KeyText k \<Rightarrow>
          if k = [] then Inr ()
          else if take 4 k \<noteq> js ''AIza'' then Inl ApiKeyFormat
          else if length k < 35 \<or> length k > 45 then Inl ApiKeyLength
          else if \<not> list_all is_key_char k then Inl ApiKeyChars
          else Inr ())"

subsection \<open>The CSRF tokens and the handler of POST /api/synthesize\<close>

text \<open>
  \<open>csrfTokens\<close> is a \<open>Set\<close> of token strings, the only state of the handler.
  \<open>generateCSRFToken\<close> adds the fresh token (its random bytes are the argument) and sets
  a timer that deletes it one hour later; the timer's action is \<open>expireCSRFToken\<close>.
\<close>

type_synonym csrfTokenSet = "string set"

definition issueCSRFToken :: "csrfTokenSet \<Rightarrow> string \<Rightarrow> csrfTokenSet" where
  "issueCSRFToken tokens token = insert token tokens"

definition expireCSRFToken :: "csrfTokenSet \<Rightarrow> string \<Rightarrow> csrfTokenSet" where
  "expireCSRFToken tokens token = tokens - {token}"

text \<open>
  The request: the header \<open>x-csrf-token\<close> and the fields of the body. \<open>voice\<close> and
  \<open>speed\<close> have defaults when they are missing; \<open>speed\<close> is kept as what \<open>parseFloat\<close>
  makes of it.
\<close>

record request =
  header_csrf :: "string option"
  body_text :: jsvalue
  body_voice :: "string option"
  body_speed :: "jsnum option"
  body_apiKey :: keyfield
  body_csrfToken :: "string option"

text \<open>
  What is handed to the provider: the sanitized text, the language code (the first
  five characters of the voice), the voice and the speaking rate.
\<close>

record synthesis =
  input_text :: jsstring
  languageCode :: string
  voice_name :: string
  speakingRate :: jsnum

datatype outcome = Rejected nat message | Forwarded synthesis

text \<open>
  \<open>req.headers['x-csrf-token'] || csrfToken\<close>: the header when it is there and not
  empty, the field of the body otherwise.
\<close>

definition receivedToken :: "request \<Rightarrow> string option" where
  "receivedToken req =
     (case header_csrf req of
        None \<Rightarrow> body_csrfToken req
      | Some h \<Rightarrow> if h \<noteq> [] then Some h else body_csrfToken req)"

text \<open>
  The structural validation of the handler, in the order of the source; the first
  failure is the answer, with status 400.
\<close>

definition validate_request :: "request \<Rightarrow> outcome" where
  "validate_request req =
     (let voice = (case body_voice req of None \<Rightarrow> ''ja-JP-Neural2-B'' | Some v \<Rightarrow> v);
          speed = (case body_speed req of None \<Rightarrow> Finite 1 | Some n \<Rightarrow> n)
      in case validateInput_text (body_text req) of
           Inl e \<Rightarrow> Rejected 400 e
         | Inr sanitized \<Rightarrow>
             (case validateInput_voice voice of
                Inl e \<Rightarrow> Rejected 400 e
              | Inr _ \<Rightarrow>
                  (case validateInput_speed speed of
                     Inl e \<Rightarrow> Rejected 400 e
                   | Inr _ \<Rightarrow>
                       (case validateInput_apiKey (body_apiKey req) of
                          Inl e \<Rightarrow> Rejected 400 e
                        | Inr _ \<Rightarrow>
                            Forwarded \<lparr>input_text = sanitized, languageCode = take 5 voice,
                                       voice_name = voice, speakingRate = speed\<rparr>))))"

text \<open>
  The handler up to the call of the provider. A request without a token, or with one
  that is not in \<open>csrfTokens\<close>, is answered with status 403 and the one text of the CSRF
  check. Otherwise the token is deleted, and only then is the request validated.
\<close>

definition synthesize :: "csrfTokenSet \<Rightarrow> request \<Rightarrow> outcome \<times> csrfTokenSet" where
  "synthesize tokens req =
     (case receivedToken req of
        None \<Rightarrow> (Rejected 403 CsrfFailed, tokens)
      | Some tok \<Rightarrow>
          if tok = [] \<or> tok \<notin> tokens then (Rejected 403 CsrfFailed, tokens)
          else (validate_request req, tokens - {tok}))"

section \<open>Credential vault (security-fixes.js, class SecureApiKeyManager)\<close>

text \<open>
  The vault runs on primitives of the browser, which are parameters of the model:
  \<open>crypto.subtle.importKey\<close> and \<open>exportKey\<close> on raw key bytes, AES-GCM \<open>encrypt\<close>
  and \<open>decrypt\<close> with a key and an initialisation vector, and the \<open>TextEncoder\<close> and
  \<open>TextDecoder\<close>. A primitive that rejects returns \<open>None\<close>; the decoder never rejects.
  \<open>'k\<close> is the type of key objects.
\<close>

record 'k platform =
  importKey :: "nat list \<Rightarrow> 'k option"
  exportKey :: "'k \<Rightarrow> nat list option"
  encrypt :: "'k \<Rightarrow> nat list \<Rightarrow> nat list \<Rightarrow> nat list option"
  decrypt :: "'k \<Rightarrow> nat list \<Rightarrow> nat list \<Rightarrow> nat list option"
  encode :: "jsstring \<Rightarrow> nat list"
  decode :: "nat list \<Rightarrow> jsstring"

text \<open>
  The entry \<open>tts-api-key-secure\<close> of the session storage is a JSON text: \<open>Blob\<close> is a text
  that parses to \<open>{data, iv, timestamp}\<close>, \<open>Garbage\<close> any other text. On garbage
  \<open>JSON.parse\<close> raises, or a field is missing further on; every such way ends with the
  vault cleared and the answer \<open>null\<close>, and the model takes the first.
\<close>

datatype stored = Garbage | Blob "nat list" "nat list" int

text \<open>
  The state: the entry of the blob, the entry \<open>tts-crypto-key\<close> with the raw key, the
  field \<open>encryptionKey\<close> of the object, and the due times of the timers that
  \<open>saveApiKeySecurely\<close> has set and that have not fired yet. Nothing in the source
  cancels a timer.
\<close>

record 'k vault =
  item :: "stored option"
  cryptoKeyItem :: "nat list option"
  encryptionKey :: "'k option"
  timers :: "int list"

definition newVault :: "'k vault" where
  "newVault = \<lparr>item = None, cryptoKeyItem = None, encryptionKey = None, timers = []\<rparr>"

datatype vault_error = InvalidApiKey | KeyInitFailed | SaveFailed | ParseFailed | DecryptFailed

definition clearApiKey :: "'k vault \<Rightarrow> 'k vault" where
  "clearApiKey v = v\<lparr>item := None, cryptoKeyItem := None, encryptionKey := None\<rparr>"

text \<open>
  The timers, \<open>setTimeout(() => this.clearApiKey(), 30 * 60 * 1000)\<close>: when the clock has
  come to \<open>now\<close>, every timer that was due by then has fired, run \<open>clearApiKey\<close> and gone.
  The event loop does this between the calls of the methods, so a call at the time
  \<open>now\<close> works on \<open>run_timers now v\<close>.
\<close>

definition run_timers :: "int \<Rightarrow> 'k vault \<Rightarrow> 'k vault" where
  "run_timers now v =
     (if list_ex (\<lambda>due. due \<le> now) (timers v)
      then (clearApiKey v)\<lparr>timers := filter (\<lambda>due. now < due) (timers v)\<rparr>
      else v)"

text \<open>
  \<open>getEncryptionKey\<close>: the cached key; else the stored raw key, imported; else a new
  key (\<open>fresh\<close> is what \<open>generateKey\<close> returns, \<open>None\<close> when it rejects), which is
  assigned to the field before it is exported and stored. Every failure is rethrown
  as one error.
\<close>

definition getEncryptionKey ::
    "'k platform \<Rightarrow> 'k option \<Rightarrow> 'k vault \<Rightarrow> (vault_error + 'k) \<times> 'k vault" where
  "getEncryptionKey P fresh v =
     (case encryptionKey v of
        Some key \<Rightarrow> (Inr key, v)
      | None \<Rightarrow>
          (case cryptoKeyItem v of
             Some keyData \<Rightarrow>
               (case importKey P keyData of
                  None \<Rightarrow> (Inl KeyInitFailed, v)
                | Some key \<Rightarrow> (Inr key, v\<lparr>encryptionKey := Some key\<rparr>))
           | None \<Rightarrow>
               (case fresh of
                  None \<Rightarrow> (Inl KeyInitFailed, v)
                | Some key \<Rightarrow>
                    (case exportKey P key of
                       None \<Rightarrow> (Inl KeyInitFailed, v\<lparr>encryptionKey := Some key\<rparr>)
                     | Some raw \<Rightarrow>
                         (Inr key, v\<lparr>encryptionKey := Some key, cryptoKeyItem := Some raw\<rparr>)))))"

text \<open>
  \<open>saveApiKeySecurely\<close>: an empty string and a value that is not a string are refused
  before anything else happens. \<open>iv\<close> is the twelve random bytes, \<open>now\<close> the clock. The
  blob is stored with its time, and a timer is set for 30 minutes later.
\<close>

definition saveApiKeySecurely ::
    "'k platform \<Rightarrow> 'k option \<Rightarrow> nat list \<Rightarrow> int \<Rightarrow> 'k vault \<Rightarrow> jsvalue
       \<Rightarrow> (vault_error + bool) \<times> 'k vault" where
  "saveApiKeySecurely P fresh iv now v apiKey =
     (case apiKey of
        NotString \<Rightarrow> (Inl InvalidApiKey, v)
      | Str k \<Rightarrow>
          if k = [] then (Inl InvalidApiKey, v)
          else (case getEncryptionKey P fresh v of
                  (Inl e, v') \<Rightarrow> (Inl SaveFailed, v')
                | (Inr key, v') \<Rightarrow>
                    (case encrypt P key iv (encode P k) of
                       None \<Rightarrow> (Inl SaveFailed, v')
                     | Some encryptedData \<Rightarrow>
                         (Inr True,
                          v'\<lparr>item := Some (Blob encryptedData iv now),
                             timers := timers v' @ [now + 30 * 60 * 1000]\<rparr>))))"

text \<open>
  The body of the \<open>try\<close> of \<open>getApiKeySecurely\<close>: \<open>null\<close> (\<open>Inr None\<close>) without an entry;
  \<open>JSON.parse\<close> raises on garbage; an entry older than 30 minutes is cleared and the
  answer is \<open>null\<close>; then the key is fetched and the blob decrypted, either of which
  can raise; the decoded plaintext is the answer.
\<close>

definition getApiKey_try ::
    "'k platform \<Rightarrow> 'k option \<Rightarrow> int \<Rightarrow> 'k vault \<Rightarrow> (vault_error + jsstring option) \<times> 'k vault" where
  "getApiKey_try P fresh now v =
     (case item v of
        None \<Rightarrow> (Inr None, v)
      | Some Garbage \<Rightarrow> (Inl ParseFailed, v)
      | Some (Blob encryptedData iv timestamp) \<Rightarrow>
          if now - timestamp > 30 * 60 * 1000 then (Inr None, clearApiKey v)
          else (case getEncryptionKey P fresh v of
                  (Inl e, v') \<Rightarrow> (Inl e, v')
                | (Inr key, v') \<Rightarrow>
                    (case decrypt P key iv encryptedData of
                       None \<Rightarrow> (Inl DecryptFailed, v')
                     | Some decryptedData \<Rightarrow> (Inr (Some (decode P decryptedData)), v'))))"

text \<open>
  \<open>getApiKeySecurely\<close>: the \<open>catch\<close> clears the vault and answers \<open>null\<close>. The result
  type keeps an error side, for what would leave the function as an exception.
\<close>

definition getApiKeySecurely ::
    "'k platform \<Rightarrow> 'k option \<Rightarrow> int \<Rightarrow> 'k vault \<Rightarrow> (vault_error + jsstring option) \<times> 'k vault" where
  "getApiKeySecurely P fresh now v =
     (case getApiKey_try P fresh now v of
        (Inl error, v') \<Rightarrow> (Inr None, clearApiKey v')
      | (Inr r, v') \<Rightarrow> (Inr r, v'))"

text \<open>
  A platform to run the model on: keys are their raw bytes, the cipher text is the
  plaintext behind the key and the vector, and decryption rejects any other text.
\<close>

definition demo_platform :: "(nat list) platform" where
  "demo_platform =
     \<lparr>importKey = Some,
      exportKey = Some,
      encrypt = (\<lambda>key iv m. Some (key @ iv @ m)),
      decrypt = (\<lambda>key iv c.
        if take (length key + length iv) c = key @ iv
        then Some (drop (length key + length iv) c) else None),
      encode = (\<lambda>s. s),
      decode = (\<lambda>b. b)\<rparr>"

section \<open>Sibling variants\<close>

subsection \<open>sanitizeText of the improved server (unnamed/part_000)\<close>

text \<open>
  The server variant removes the tags, then the control characters
  \<open>[\x00-\x1F\x7F-\x9F]\<close> (a global replace of a class of single code units, that is a
  filter), cuts to 5000 code units, and trims last.
\<close>

definition is_control :: "nat \<Rightarrow> bool" where
  "is_control c \<longleftrightarrow> c \<le> 31 \<or> (127 \<le> c \<and> c \<le> 159)"

definition sanitizeText_server :: "jsvalue \<Rightarrow> jsstring" where
  "sanitizeText_server text =
     (case text of
        NotString \<Rightarrow> []
      | Str s \<Rightarrow>
          (let withoutHtml = replace_all m_tag s;
               withoutControl = filter (\<lambda>c. \<not> is_control c) withoutHtml
           in trim (take 5000 withoutControl)))"

subsection \<open>SecurityMiddleware.csrfProtection (security-improvements/api-key-encryption.js)\<close>

text \<open>
  The branch of the middleware for requests other than GET. The token is the header
  \<open>x-csrf-token\<close> or the field \<open>_csrfToken\<close> of the body, the session the \<open>sessionID\<close> of the
  request or its header \<open>x-session-id\<close>; both arrive here as found (\<open>None\<close>: missing or
  empty). Without either the response is 403 with the code \<open>MISSING_CSRF_TOKEN\<close>. A
  token that \<open>validateCSRFToken\<close> refuses is answered with 403, the code
  \<open>INVALID_CSRF_TOKEN\<close>, and as error text the message of the error thrown, which is
  one text per reason. Otherwise the request goes on (\<open>Next\<close>).
\<close>

datatype csrf_code = MISSING_CSRF_TOKEN | INVALID_CSRF_TOKEN

datatype csrf_text = TokenRequired | ErrorMessage csrf_error

datatype middleware_result = Next | Respond nat csrf_text csrf_code

definition csrfProtection ::
    "SecurityUtils \<Rightarrow> string option \<Rightarrow> string option \<Rightarrow> int
       \<Rightarrow> middleware_result \<times> SecurityUtils" where
  "csrfProtection su token sid now =
     (case (token, sid) of
        (Some t, Some s) \<Rightarrow>
          (case validateCSRFToken su t s now of
             (Inl error, su') \<Rightarrow> (Respond 403 (ErrorMessage error) INVALID_CSRF_TOKEN, su')
           | (Inr ok, su') \<Rightarrow> (Next, su'))
      | _ \<Rightarrow> (Respond 403 TokenRequired MISSING_CSRF_TOKEN, su))"

subsection \<open>loadApiKeySecurely of the IndexedDB variant (security-improvements/api-key-encryption.js)\<close>

text \<open>
  This variant keeps \<open>{encrypted, iv}\<close> in the session storage, without a time, and
  the key in IndexedDB. \<open>retrieveEncryptionKey\<close> returns a promise that is rejected
  (the database does not open, or the read fails), resolved with \<open>null\<close> or with the
  key, or never settled: the handler of \<open>onsuccess\<close> opens a transaction on the store
  \<open>keys\<close>, which throws when the database has no such store, outside the promise.
  \<open>decryptApiKey\<close> rethrows every failure as one error; \<open>loadApiKeySecurely\<close> catches
  it, removes the entry and answers \<open>null\<close>. A function that waits for a promise that is
  never settled does not answer: its result is \<open>None\<close>.
\<close>

datatype stored2 = Garbage2 | Blob2 "nat list" "nat list"

datatype 'k retrieval = RetrievalRejected | NoKeyFound | KeyFound 'k | NeverSettled

definition decryptApiKey ::
    "'k platform \<Rightarrow> 'k retrieval \<Rightarrow> nat list \<Rightarrow> nat list
       \<Rightarrow> (vault_error + jsstring) option" where
  "decryptApiKey P retrieved encrypted iv =
     (case retrieved of
        NeverSettled \<Rightarrow> None
      | RetrievalRejected \<Rightarrow> Some (Inl DecryptFailed)
      | NoKeyFound \<Rightarrow> Some (Inl DecryptFailed)
      | KeyFound key \<Rightarrow>
          (case decrypt P key iv encrypted of
             None \<Rightarrow> Some (Inl DecryptFailed)
           | Some decrypted \<Rightarrow> Some (Inr (decode P decrypted))))"

definition loadApiKey_try ::
    "'k platform \<Rightarrow> 'k retrieval \<Rightarrow> stored2 option
       \<Rightarrow> (vault_error + jsstring option) option" where
  "loadApiKey_try P retrieved entry =
     (case entry of
        None \<Rightarrow> Some (Inr None)
      | Some Garbage2 \<Rightarrow> Some (Inl ParseFailed)
      | Some (Blob2 encrypted iv) \<Rightarrow>
          (case decryptApiKey P retrieved encrypted iv of
             None \<Rightarrow> None
           | Some (Inl e) \<Rightarrow> Some (Inl e)
           | Some (Inr apiKey) \<Rightarrow> Some (Inr (Some apiKey))))"

definition loadApiKeySecurely ::
    "'k platform \<Rightarrow> 'k retrieval \<Rightarrow> stored2 option
       \<Rightarrow> ((vault_error + jsstring option) \<times> stored2 option) option" where
  "loadApiKeySecurely P retrieved entry =
     (case loadApiKey_try P retrieved entry of
        None \<Rightarrow> None
      | Some (Inl error) \<Rightarrow> Some (Inr None, None)
      | Some (Inr r) \<Rightarrow> Some (Inr r, entry))"

section \<open>Properties of the rate limiter\<close>

lemma ceil_div_real: "ceil_div t 1000 = \<lceil>real_of_int t / 1000\<rceil>"
proof -
  have "\<lceil>real_of_int t / 1000\<rceil> = - \<lfloor>- (real_of_int t / 1000)\<rfloor>"
    by (simp add: ceiling_def)
  also have "- (real_of_int t / 1000) = real_of_int (- t) / real_of_int 1000"
    by simp
  also have "\<lfloor>real_of_int (- t) / real_of_int 1000\<rfloor> = (- t) div 1000"
    by (rule floor_divide_of_int_eq)
  finally show ?thesis by (simp add: ceil_div_def)
qed

lemma ceil_bracket:
  "(t::int) = 1000 * c - r \<Longrightarrow> 0 \<le> r \<Longrightarrow> r < 1000 \<Longrightarrow>
     1000 * (c - 1) < t \<and> t \<le> 1000 * c"
  by simp

lemma ceil_div_bounds:
  "1000 * (ceil_div t 1000 - 1) < t \<and> t \<le> 1000 * ceil_div t 1000"
proof (rule ceil_bracket)
  have e: "1000 * ((- t) div 1000) + (- t) mod 1000 = - t"
    by (rule mult_div_mod_eq)
  show "t = 1000 * ceil_div t 1000 - (- t) mod 1000"
    unfolding ceil_div_def using e by linarith
  show "0 \<le> (- t) mod 1000" by simp
  show "(- t) mod 1000 < 1000" by simp
qed

lemma ceil_div_lower: "1000 * (ceil_div t 1000 - 1) < t"
  by (rule conjunct1 [OF ceil_div_bounds])

lemma ceil_div_upper: "t \<le> 1000 * ceil_div t 1000"
  by (rule conjunct2 [OF ceil_div_bounds])

lemma nonpos_bracket:
  "1000 * (c - 1) < (t::int) \<Longrightarrow> t \<le> 1000 * c \<Longrightarrow> (c \<le> 0) = (t \<le> 0)"
  by auto

lemma ceil_div_nonpos_iff: "ceil_div t 1000 \<le> 0 \<longleftrightarrow> t \<le> 0"
  by (rule nonpos_bracket [OF ceil_div_lower ceil_div_upper])

lemma canMakeRequest_keeps_parameters:
  "maxRequests (snd (canMakeRequest rl now)) = maxRequests rl \<and>
   windowMs (snd (canMakeRequest rl now)) = windowMs rl"
  by (simp add: canMakeRequest_def Let_def)

text \<open>
  The invariant of the data model: after any admission check the retained times are all
  younger than the window, and a window that held at most \<open>maxRequests\<close> times before
  the check holds at most \<open>maxRequests\<close> after it.
\<close>

lemma canMakeRequest_young:
  "0 < windowMs rl \<Longrightarrow> time \<in> set (requests (snd (canMakeRequest rl now))) \<Longrightarrow>
     now - time < windowMs rl"
  by (auto simp: canMakeRequest_def Let_def split: if_splits)

lemma canMakeRequest_bounded:
  assumes "int (length (requests rl)) \<le> maxRequests rl"
  shows "int (length (requests (snd (canMakeRequest rl now)))) \<le> maxRequests rl"
proof -
  have "length (filter (\<lambda>time. now - time < windowMs rl) (requests rl)) \<le> length (requests rl)"
    by (rule length_filter_le)
  then have "int (length (filter (\<lambda>time. now - time < windowMs rl) (requests rl)))
      \<le> maxRequests rl"
    using assms by linarith
  then show ?thesis
    unfolding canMakeRequest_def Let_def
    by (cases "maxRequests rl
          \<le> int (length (filter (\<lambda>time. now - time < windowMs rl) (requests rl)))")
      simp_all
qed

text \<open>
  Claim C8. A limiter built with \<open>maxRequests = 3\<close> and \<open>windowMs = 1000\<close> starts with an
  empty window. Four checks are made at times \<open>t1 \<le> t2 \<le> t3 \<le> t4\<close> that lie in one
  window (\<open>t4 - t1 < 1000\<close>): the first three return true and their times are recorded,
  in order; the fourth returns false and records nothing. A check at a time \<open>t5\<close> at
  least a full window after the last recorded admission returns true again.
\<close>

theorem rate_limiter_three_per_second:
  assumes "t1 \<le> t2" and "t2 \<le> t3" and "t3 \<le> t4" and "t4 - t1 < 1000"
    and "t3 + 1000 \<le> t5"
  shows "(let (a1, r1) = canMakeRequest (newRateLimiter 3 1000) t1;
              (a2, r2) = canMakeRequest r1 t2;
              (a3, r3) = canMakeRequest r2 t3;
              (a4, r4) = canMakeRequest r3 t4;
              (a5, r5) = canMakeRequest r4 t5
          in a1 \<and> requests r1 = [t1]
           \<and> a2 \<and> requests r2 = [t1, t2]
           \<and> a3 \<and> requests r3 = [t1, t2, t3]
           \<and> \<not> a4 \<and> requests r4 = [t1, t2, t3]
           \<and> a5 \<and> requests r5 = [t5])"
  using assms by (simp add: canMakeRequest_def newRateLimiter_def Let_def)

theorem rate_limiter_three_per_second_witness:
  "(let (a1, r1) = canMakeRequest (newRateLimiter 3 1000) 0;
        (a2, r2) = canMakeRequest r1 100;
        (a3, r3) = canMakeRequest r2 200;
        (a4, r4) = canMakeRequest r3 999;
        (a5, r5) = canMakeRequest r4 1200
    in a1 \<and> requests r1 = [0]
     \<and> a2 \<and> requests r2 = [0, 100]
     \<and> a3 \<and> requests r3 = [0, 100, 200]
     \<and> \<not> a4 \<and> requests r4 = [0, 100, 200]
     \<and> a5 \<and> requests r5 = [1200])"
  using rate_limiter_three_per_second [of 0 100 200 999 1200] by simp

text \<open>
  The claim C9 as stated fails: the method has no capacity test. One admission into a
  limiter of capacity 10 with a window of 60000 ms leaves the window under capacity, and
  the method, asked at the same instant, answers 60 (seconds), not 0.
\<close>

theorem timeUntilReset_under_capacity_counterexample:
  "int (length (requests (snd (canMakeRequest (newRateLimiter 10 60000) 0))))
     < maxRequests (snd (canMakeRequest (newRateLimiter 10 60000) 0))
   \<and> getTimeUntilReset (snd (canMakeRequest (newRateLimiter 10 60000) 0)) 0 = 60"
  by (simp add: canMakeRequest_def newRateLimiter_def getTimeUntilReset_def ceil_div_def Let_def)

text \<open>
  Claim C9, amended. \<open>getTimeUntilReset\<close> returns 0 when no time is stored. Otherwise,
  with \<open>oldest\<close> the least stored time, it returns the time \<open>oldest + windowMs - now\<close>
  left until that time leaves the window, in whole seconds rounded up and never below 0:
  the result is 0 exactly when the oldest time has already left the window, and a
  positive result \<open>r\<close> brackets the remaining milliseconds between \<open>1000 * (r - 1)\<close>
  (excluded) and \<open>1000 * r\<close>. The capacity plays no part in the result.
\<close>

theorem timeUntilReset_oldest_exit:
  "(requests rl = [] \<longrightarrow> getTimeUntilReset rl now = 0)
   \<and> (requests rl \<noteq> [] \<longrightarrow>
        0 \<le> getTimeUntilReset rl now
      \<and> (getTimeUntilReset rl now = 0
            \<longleftrightarrow> Min (set (requests rl)) + windowMs rl \<le> now)
      \<and> (0 < getTimeUntilReset rl now \<longrightarrow>
            1000 * (getTimeUntilReset rl now - 1) < Min (set (requests rl)) + windowMs rl - now
          \<and> Min (set (requests rl)) + windowMs rl - now \<le> 1000 * getTimeUntilReset rl now))
   \<and> getTimeUntilReset (rl\<lparr>maxRequests := m\<rparr>) now = getTimeUntilReset rl now"
proof (intro conjI impI)
  show "getTimeUntilReset (rl\<lparr>maxRequests := m\<rparr>) now = getTimeUntilReset rl now"
    by (simp add: getTimeUntilReset_def)
next
  assume "requests rl = []"
  then show "getTimeUntilReset rl now = 0"
    by (simp add: getTimeUntilReset_def)
next
  assume ne: "requests rl \<noteq> []"
  define t where "t = windowMs rl - (now - Min (set (requests rl)))"
  define g where "g = getTimeUntilReset rl now"
  have r: "g = max 0 (ceil_div t 1000)"
    using ne by (simp add: g_def getTimeUntilReset_def Let_def min_list_Min t_def)
  have t: "Min (set (requests rl)) + windowMs rl - now = t"
    by (simp add: t_def)
  show "0 \<le> getTimeUntilReset rl now"
    unfolding g_def [symmetric] by (simp add: r)
  have "g = 0 \<longleftrightarrow> t \<le> 0"
    using ceil_div_nonpos_iff [of t] unfolding r by auto
  then show "getTimeUntilReset rl now = 0 \<longleftrightarrow> Min (set (requests rl)) + windowMs rl \<le> now"
    unfolding g_def [symmetric] t_def by auto
  assume "0 < getTimeUntilReset rl now"
  then have "g = ceil_div t 1000"
    unfolding g_def [symmetric] r by auto
  then show "1000 * (getTimeUntilReset rl now - 1) < Min (set (requests rl)) + windowMs rl - now"
    and "Min (set (requests rl)) + windowMs rl - now \<le> 1000 * getTimeUntilReset rl now"
    unfolding g_def [symmetric] t using ceil_div_lower [of t] ceil_div_upper [of t] by simp_all
qed

theorem timeUntilReset_oldest_exit_witness:
  "getTimeUntilReset \<lparr>maxRequests = 10, windowMs = 60000, requests = []\<rparr> 5 = 0
   \<and> getTimeUntilReset \<lparr>maxRequests = 10, windowMs = 60000, requests = [2500, 1000]\<rparr> 3500 = 58
   \<and> 1000 * (58 - 1) < (1000::int) + 60000 - 3500
   \<and> (1000::int) + 60000 - 3500 \<le> 1000 * 58"
  using timeUntilReset_oldest_exit
    [of "\<lparr>maxRequests = 10, windowMs = 60000, requests = []\<rparr>" 5 10]
    timeUntilReset_oldest_exit
    [of "\<lparr>maxRequests = 10, windowMs = 60000, requests = [2500, 1000]\<rparr>" 3500 10]
  by (simp add: getTimeUntilReset_def ceil_div_def Let_def)


section \<open>Properties of the CSRF token service\<close>


lemma validate_other_session:
  "csrfTokens su t = Some d \<Longrightarrow> sessionId d \<noteq> B \<Longrightarrow>
     fst (validateCSRFToken su t B n) \<noteq> Inr True"
  by (simp add: validateCSRFToken_def)













section \<open>Properties of the sanitizer\<close>

lemmas sanitizer_eval = sanitizeText_def js_def m_script_def m_tag_def m_jsproto_def
  m_handler_def trim_def is_space_def is_word_def is_quote_def canon_def Let_def

lemma subseq_set: "subseq xs ys \<Longrightarrow> set xs \<subseteq> set ys"
  by (auto dest: list_emb_set)

lemma subseq_drop: "subseq (drop n xs) xs"
  by (rule suffix_imp_subseq) (rule suffix_drop)

lemma subseq_replace_all: "subseq (replace_all m s) s"
proof (induction m s rule: replace_all.induct)
  case (1 m)
  show ?case by simp
next
  case (2 m c cs)
  show ?case
  proof (cases "m (c # cs)")
    case None
    with 2 show ?thesis by simp
  next
    case (Some n)
    show ?thesis
    proof (cases "0 < n")
      case True
      with 2 Some have "subseq (replace_all m (drop (n - 1) cs)) (drop (n - 1) cs)"
        by simp
      also have "subseq (drop (n - 1) cs) cs"
        by (rule subseq_drop)
      also have "subseq cs (c # cs)"
        using subseq_drop [of 1 "c # cs"] by simp
      finally show ?thesis using Some True by simp
    next
      case False
      with 2 Some show ?thesis by simp
    qed
  qed
qed

lemma subseq_trim: "subseq (trim s) s"
proof -
  have "prefix (rev (dropWhile is_space (rev (dropWhile is_space s)))) (dropWhile is_space s)"
    by (metis prefixI rev_append rev_rev_ident takeWhile_dropWhile_id)
  then have "subseq (trim s) (dropWhile is_space s)"
    unfolding trim_def by (rule prefix_imp_subseq)
  also have "subseq (dropWhile is_space s) s"
    by (rule suffix_imp_subseq) (rule suffix_dropWhile)
  finally show ?thesis .
qed

lemma subseq_take: "subseq (take n xs) xs"
  by (rule prefix_imp_subseq) (rule take_is_prefix)

lemma no_tag_subseq: "subseq ys xs \<Longrightarrow> no_tag xs \<Longrightarrow> no_tag ys"
proof (induction rule: list_emb.induct)
  case (list_emb_Nil ys)
  show ?case by simp
next
  case (list_emb_Cons xs ys y)
  then show ?case by simp
next
  case (list_emb_Cons2 x y xs ys)
  then have "set xs \<subseteq> set ys"
    by (intro subseq_set)
  with list_emb_Cons2 show ?case by auto
qed

lemma no_tag_strip: "no_tag (replace_all m_tag s)"
proof (induction m_tag s rule: replace_all.induct)
  case 1
  show ?case by simp
next
  case (2 c cs)
  show ?case
  proof (cases "m_tag (c # cs)")
    case None
    then have "c \<noteq> 60 \<or> 62 \<notin> set cs"
      by (auto simp: m_tag_def split: if_splits)
    moreover have "set (replace_all m_tag cs) \<subseteq> set cs"
      using subseq_replace_all by (rule subseq_set)
    ultimately show ?thesis using 2 None by auto
  next
    case (Some n)
    then have "0 < n" by (auto simp: m_tag_def split: if_splits)
    with 2 Some show ?thesis by simp
  qed
qed

lemma no_tag_append: "no_tag (a @ 60 # b @ 62 # c) = False"
  by (induction a) auto

lemma no_tag_sanitizeText: "no_tag (sanitizeText v)"
proof (cases v)
  case NotString
  then show ?thesis by (simp add: sanitizeText_def)
next
  case (Str s)
  define t where "t = replace_all m_tag (replace_all m_script s)"
  have "subseq (take 5000 (trim (replace_all m_handler (replace_all m_jsproto t))))
          (trim (replace_all m_handler (replace_all m_jsproto t)))"
    by (rule subseq_take)
  also have "subseq \<dots> (replace_all m_handler (replace_all m_jsproto t))"
    by (rule subseq_trim)
  also have "subseq \<dots> (replace_all m_jsproto t)"
    by (rule subseq_replace_all)
  also have "subseq \<dots> t"
    by (rule subseq_replace_all)
  finally have "subseq (sanitizeText v) t"
    by (simp add: Str sanitizeText_def t_def)
  moreover have "no_tag t"
    unfolding t_def by (rule no_tag_strip)
  ultimately show ?thesis by (rule no_tag_subseq)
qed

lemma no_tag_validateInput_text:
  assumes "validateInput_text v = Inr sanitized"
  shows "no_tag sanitized"
proof -
  from assms obtain s where "sanitized = trim (replace_all m_tag (replace_all m_script s))"
    by (auto simp: validateInput_text_def Let_def split: jsvalue.splits if_splits)
  moreover have "subseq (trim (replace_all m_tag (replace_all m_script s)))
      (replace_all m_tag (replace_all m_script s))"
    by (rule subseq_trim)
  ultimately show ?thesis
    using no_tag_strip no_tag_subseq by metis
qed

text \<open>
  The claim C2 as stated fails. The input \<open><script>x</script><script\<close> contains a
  script element; the first replacement removes the element, the second finds no \<open>>\<close>
  to close a tag, and the output is \<open><script\<close>. \<open>validateInput.text\<close> of the server
  returns the same.
\<close>

theorem sanitizeText_script_counterexample:
  "sublist (js ''<script>'' @ js ''x'' @ js ''</script>'') (js ''<script>x</script><script'')
   \<and> sanitizeText (Str (js ''<script>x</script><script'')) = js ''<script''
   \<and> sublist (js ''<script'') (sanitizeText (Str (js ''<script>x</script><script'')))
   \<and> validateInput_text (Str (js ''<script>x</script><script'')) = Inr (js ''<script'')"
proof -
  have "sublist (js ''<script>'' @ js ''x'' @ js ''</script>'')
      ([] @ (js ''<script>'' @ js ''x'' @ js ''</script>'') @ js ''<script'')"
    by (rule sublist_appendI)
  then have 1: "sublist (js ''<script>'' @ js ''x'' @ js ''</script>'')
      (js ''<script>x</script><script'')"
    by (simp add: js_def)
  have 2: "sanitizeText (Str (js ''<script>x</script><script'')) = js ''<script''"
    by (simp add: sanitizer_eval)
  have 3: "validateInput_text (Str (js ''<script>x</script><script'')) = Inr (js ''<script'')"
    by (simp add: sanitizer_eval validateInput_text_def)
  show ?thesis
    unfolding 2 using 1 3 by simp
qed

text \<open>
  Claim C2, amended. For every input (with or without a script element) the output of
  \<open>sanitizeText\<close> holds no complete tag: no \<open><\<close> of the output has a \<open>>\<close> anywhere behind
  it. So the output never contains \<open><script>\<close>, in any spelling; what can remain is a
  \<open><script\<close> that nothing closes. The same holds of the text that
  \<open>validateInput.text\<close> accepts.
\<close>

theorem sanitizeText_no_complete_tag:
  "(\<forall>a b c. sanitizeText v \<noteq> a @ 60 # b @ 62 # c)
   \<and> \<not> sublist (js ''<script>'') (sanitizeText v)
   \<and> (\<forall>sanitized. validateInput_text v = Inr sanitized \<longrightarrow>
         (\<forall>a b c. sanitized \<noteq> a @ 60 # b @ 62 # c)
       \<and> \<not> sublist (js ''<script>'') sanitized)"
proof -
  have gen: "(\<forall>a b c. y \<noteq> a @ 60 # b @ 62 # c) \<and> \<not> sublist (js ''<script>'') y"
    if "no_tag y" for y
  proof
    show g: "\<forall>a b c. y \<noteq> a @ 60 # b @ 62 # c"
      using that no_tag_append by metis
    show "\<not> sublist (js ''<script>'') y"
    proof
      assume "sublist (js ''<script>'') y"
      then obtain ps ss where "y = ps @ js ''<script>'' @ ss"
        by (auto simp: sublist_def)
      then have "y = ps @ 60 # js ''script'' @ 62 # ss"
        by (simp add: js_def)
      with g show False by blast
    qed
  qed
  show ?thesis
    using gen [OF no_tag_sanitizeText] gen [OF no_tag_validateInput_text] by blast
qed

theorem sanitizeText_no_complete_tag_witness:
  "sanitizeText (Str (js ''<script>x</script><script'')) \<noteq> [] @ 60 # js ''script'' @ 62 # []
   \<and> \<not> sublist (js ''<script>'') (sanitizeText (Str (js ''<script>x</script><script'')))
   \<and> validateInput_text (Str (js ''<b>a</B>'')) = Inr (js ''a'')
   \<and> \<not> sublist (js ''<script>'') (js ''a'')"
proof -
  have e: "validateInput_text (Str (js ''<b>a</B>'')) = Inr (js ''a'')"
    by (simp add: sanitizer_eval validateInput_text_def)
  show ?thesis
    using sanitizeText_no_complete_tag [of "Str (js ''<script>x</script><script'')"]
      sanitizeText_no_complete_tag [of "Str (js ''<b>a</B>'')"] e
    by blast
qed

text \<open>
  Claim C3 fails on the code. The third replacement deletes the occurrences of
  \<open>javascript:\<close> in one pass and does not look at what the deletion joins: the input
  \<open>jajavascript:vascript:\<close> is sanitized to \<open>javascript:\<close>, and sanitizing that output
  once more gives the empty string.
\<close>

theorem sanitizeText_not_idempotent:
  "sanitizeText (Str (js ''jajavascript:vascript:'')) = js ''javascript:''
   \<and> sanitizeText (Str (sanitizeText (Str (js ''jajavascript:vascript:'')))) = []"
proof -
  have 1: "sanitizeText (Str (js ''jajavascript:vascript:'')) = js ''javascript:''"
    by (simp add: sanitizer_eval)
  have 2: "sanitizeText (Str (js ''javascript:'')) = []"
    by (simp add: sanitizer_eval)
  show ?thesis
    unfolding 1 2 by simp
qed

lemma replace_all_no_start:
  "(\<And>c cs. c \<in> set s \<Longrightarrow> m (c # cs) = None) \<Longrightarrow> replace_all m s = s"
  by (induction s) auto

lemma plain_no_match:
  assumes "c \<noteq> 60" and "canon c \<noteq> 74" and "canon c \<noteq> 79"
  shows "m_script (c # cs) = None" and "m_tag (c # cs) = None"
    and "m_jsproto (c # cs) = None" and "m_handler (c # cs) = None"
  using assms
  by (auto simp: m_script_def m_tag_def m_jsproto_def m_handler_def js_def canon_def
      split: if_splits)

lemma replace_all_plain:
  assumes "\<And>c. c \<in> set s \<Longrightarrow> c \<noteq> 60 \<and> canon c \<noteq> 74 \<and> canon c \<noteq> 79"
  shows "replace_all m_handler (replace_all m_jsproto (replace_all m_tag (replace_all m_script s))) = s"
proof -
  have "replace_all m_script s = s" "replace_all m_tag s = s" "replace_all m_jsproto s = s"
    "replace_all m_handler s = s"
    using assms by (auto intro!: replace_all_no_start plain_no_match)
  then show ?thesis by simp
qed

lemma trim_plain: "\<not> is_space a \<Longrightarrow> \<not> is_space b \<Longrightarrow> trim (a # xs @ [b]) = a # xs @ [b]"
  by (simp add: trim_def)

lemma trim_trailing_space:
  "\<not> is_space a \<Longrightarrow> is_space b \<Longrightarrow> trim (replicate (Suc n) a @ [b]) = replicate (Suc n) a"
proof -
  assume a: "\<not> is_space a" and b: "is_space b"
  have "rev (replicate (Suc n) a @ [b]) = b # replicate n a @ [a]"
    by (simp add: replicate_append_same)
  then have "dropWhile is_space (rev (replicate (Suc n) a @ [b])) = replicate n a @ [a]"
    using a b by (cases n) simp_all
  then have "rev (dropWhile is_space (rev (replicate (Suc n) a @ [b]))) = replicate (Suc n) a"
    by (simp add: replicate_append_same)
  then show ?thesis
    using a by (simp add: trim_def)
qed

text \<open>
  The second way to the same failure: \<open>trim()\<close> runs before \<open>substring(0, 5000)\<close>, so
  the cut can leave white space at the end, which a second pass trims. The input is
  4999 times \<open>a\<close>, a space and \<open>b\<close>. (The server variant cuts first and trims last.)
\<close>

lemma sanitizeText_cut_not_idempotent:
  "sanitizeText (Str (replicate 4999 97 @ [32, 98])) = replicate 4999 97 @ [32]
   \<and> sanitizeText (Str (sanitizeText (Str (replicate 4999 97 @ [32, 98])))) = replicate 4999 97"
proof -
  have s97: "\<not> is_space 97" and s98: "\<not> is_space 98" and s32: "is_space 32"
    by (simp_all add: is_space_def)
  have n: "(4999::nat) = Suc 4998"
    by simp
  have r1: "replace_all m_handler (replace_all m_jsproto (replace_all m_tag
      (replace_all m_script (replicate 4999 97 @ [32, 98])))) = replicate 4999 97 @ [32, 98]"
    by (rule replace_all_plain) (auto simp: canon_def)
  have r2: "replace_all m_handler (replace_all m_jsproto (replace_all m_tag
      (replace_all m_script (replicate 4999 97 @ [32])))) = replicate 4999 97 @ [32]"
    by (rule replace_all_plain) (auto simp: canon_def)
  have e: "replicate 4999 (97::nat) = 97 # replicate 4998 97"
    by (subst n) (rule replicate_Suc)
  have "trim (97 # (replicate 4998 97 @ [32]) @ [98]) = 97 # (replicate 4998 97 @ [32]) @ [98]"
    using s97 s98 by (rule trim_plain)
  then have t1: "trim (replicate 4999 97 @ [32, 98]) = replicate 4999 97 @ [32, 98]"
    unfolding e by simp
  have "trim (replicate (Suc 4998) 97 @ [32]) = replicate (Suc 4998) 97"
    using s97 s32 by (rule trim_trailing_space)
  then have t2: "trim (replicate 4999 97 @ [32]) = replicate 4999 97"
    unfolding e replicate_Suc .
  have 1: "sanitizeText (Str (replicate 4999 97 @ [32, 98])) = replicate 4999 97 @ [32]"
    unfolding sanitizeText_def jsvalue.case r1 t1 by simp
  have 2: "sanitizeText (Str (replicate 4999 97 @ [32])) = replicate 4999 97"
    unfolding sanitizeText_def jsvalue.case r2 t2 by simp
  show ?thesis
    unfolding 1 2 by simp
qed

section \<open>Properties of the synthesis endpoint\<close>

lemma validate_request_not_403: "validate_request req \<noteq> Rejected 403 m"
  by (simp add: validate_request_def Let_def split: sum.splits)

lemma validate_request_status:
  "validate_request req = Rejected status m \<Longrightarrow> status = 400"
  by (auto simp: validate_request_def Let_def split: sum.splits)

lemma synthesize_csrf_failure:
  "receivedToken req = None \<or> receivedToken req = Some [] \<or>
     (\<exists>tok. receivedToken req = Some tok \<and> tok \<notin> tokens) \<Longrightarrow>
   synthesize tokens req = (Rejected 403 CsrfFailed, tokens)"
  by (auto simp: synthesize_def split: option.splits)

lemma synthesize_csrf_pass:
  "receivedToken req = Some tok \<Longrightarrow> tok \<noteq> [] \<Longrightarrow> tok \<in> tokens \<Longrightarrow>
   synthesize tokens req = (validate_request req, tokens - {tok})"
  by (simp add: synthesize_def)

text \<open>
  The claim C4 as stated fails. The store holds the token \<open>t0\<close>; a request presents it
  with an empty text. The answer is status 400 with the text of a missing text, and the
  store is empty afterwards: the token was deleted before the validation ran, and the
  same request sent again is answered with the 403 of the CSRF check.
\<close>

theorem synthesize_consumes_token_counterexample:
  "synthesize {''t0''}
     \<lparr>header_csrf = None, body_text = Str [], body_voice = None, body_speed = None,
      body_apiKey = KeyAbsent, body_csrfToken = Some ''t0''\<rparr>
     = (Rejected 400 TextRequired, {})
   \<and> synthesize {}
     \<lparr>header_csrf = None, body_text = Str [], body_voice = None, body_speed = None,
      body_apiKey = KeyAbsent, body_csrfToken = Some ''t0''\<rparr>
     = (Rejected 403 CsrfFailed, {})"
  by (simp add: synthesize_def receivedToken_def validate_request_def validateInput_text_def)

text \<open>
  Claim C4, amended. A request that the handler rejects at the CSRF check (status 403)
  leaves the token store as it was. A request that passes the CSRF check has lost its
  token by the time the validation runs: when the handler rejects it with status 400,
  the store is the old one without the presented token, and the same request sent
  again is rejected by the CSRF check.
\<close>

theorem synthesize_side_effects:
  "(\<forall>m. fst (synthesize tokens req) = Rejected 403 m \<longrightarrow> snd (synthesize tokens req) = tokens)
   \<and> (\<forall>m. fst (synthesize tokens req) = Rejected 400 m \<longrightarrow>
        (\<exists>tok. receivedToken req = Some tok \<and> tok \<in> tokens
           \<and> snd (synthesize tokens req) = tokens - {tok}
           \<and> synthesize (snd (synthesize tokens req)) req
               = (Rejected 403 CsrfFailed, tokens - {tok})))"
proof (cases "receivedToken req")
  case None
  then have "synthesize tokens req = (Rejected 403 CsrfFailed, tokens)"
    by (simp add: synthesize_csrf_failure)
  then show ?thesis by simp
next
  case (Some tok)
  show ?thesis
  proof (cases "tok = [] \<or> tok \<notin> tokens")
    case True
    with Some have "synthesize tokens req = (Rejected 403 CsrfFailed, tokens)"
      by (auto intro: synthesize_csrf_failure)
    then show ?thesis by simp
  next
    case False
    with Some have pass: "synthesize tokens req = (validate_request req, tokens - {tok})"
      by (simp add: synthesize_csrf_pass)
    have again: "synthesize (tokens - {tok}) req = (Rejected 403 CsrfFailed, tokens - {tok})"
      using Some by (intro synthesize_csrf_failure) simp
    show ?thesis
      using Some False pass again validate_request_not_403 by simp
  qed
qed

theorem synthesize_side_effects_witness:
  "snd (synthesize {''t0''}
     \<lparr>header_csrf = Some ''zz'', body_text = Str [], body_voice = None, body_speed = None,
      body_apiKey = KeyAbsent, body_csrfToken = Some ''t0''\<rparr>) = {''t0''}
   \<and> snd (synthesize {''t0''}
     \<lparr>header_csrf = None, body_text = Str [], body_voice = None, body_speed = None,
      body_apiKey = KeyAbsent, body_csrfToken = Some ''t0''\<rparr>) = {}"
proof -
  have 1: "fst (synthesize {''t0''}
     \<lparr>header_csrf = Some ''zz'', body_text = Str [], body_voice = None, body_speed = None,
      body_apiKey = KeyAbsent, body_csrfToken = Some ''t0''\<rparr>) = Rejected 403 CsrfFailed"
    by (simp add: synthesize_def receivedToken_def)
  have 2: "fst (synthesize {''t0''}
     \<lparr>header_csrf = None, body_text = Str [], body_voice = None, body_speed = None,
      body_apiKey = KeyAbsent, body_csrfToken = Some ''t0''\<rparr>) = Rejected 400 TextRequired"
    by (simp add: synthesize_def receivedToken_def validate_request_def validateInput_text_def)
  have 3: "receivedToken \<lparr>header_csrf = None, body_text = Str [], body_voice = None,
      body_speed = None, body_apiKey = KeyAbsent, body_csrfToken = Some ''t0''\<rparr> = Some ''t0''"
    by (simp add: receivedToken_def)
  show ?thesis
    using 1 2 3
      synthesize_side_effects [of "{''t0''}"
        "\<lparr>header_csrf = Some ''zz'', body_text = Str [], body_voice = None, body_speed = None,
          body_apiKey = KeyAbsent, body_csrfToken = Some ''t0''\<rparr>"]
      synthesize_side_effects [of "{''t0''}"
        "\<lparr>header_csrf = None, body_text = Str [], body_voice = None, body_speed = None,
          body_apiKey = KeyAbsent, body_csrfToken = Some ''t0''\<rparr>"]
    by auto
qed

text \<open>
  Claim C5. The handler answers every failure of its CSRF check with one and the same
  response, status 403 with the one text \<open>CsrfFailed\<close>, and leaves the store alone:
  when the request carries no token or an empty one; when the token was never issued
  or is otherwise unknown; when the token has been used by an earlier request, whatever
  became of that request; and when the timer of the token has fired. The response says
  nothing about which of these happened. (The store binds no token to a session, so no
  request is rejected for presenting a token of another session.)
\<close>

theorem synthesize_csrf_rejection_generic:
  "((receivedToken req = None \<or> receivedToken req = Some []) \<longrightarrow>
       synthesize tokens req = (Rejected 403 CsrfFailed, tokens))
   \<and> (\<forall>t. receivedToken req = Some t \<longrightarrow>
        (t \<notin> tokens \<longrightarrow> synthesize tokens req = (Rejected 403 CsrfFailed, tokens))
      \<and> (\<forall>req0. receivedToken req0 = Some t \<longrightarrow>
            fst (synthesize (snd (synthesize tokens req0)) req) = Rejected 403 CsrfFailed)
      \<and> fst (synthesize (expireCSRFToken tokens t) req) = Rejected 403 CsrfFailed)
   \<and> (\<forall>m. fst (synthesize tokens req) = Rejected 403 m \<longrightarrow> m = CsrfFailed)"
proof (intro conjI allI impI)
  assume "receivedToken req = None \<or> receivedToken req = Some []"
  then show "synthesize tokens req = (Rejected 403 CsrfFailed, tokens)"
    by (intro synthesize_csrf_failure) auto
next
  fix t
  assume r: "receivedToken req = Some t"
  {
    assume "t \<notin> tokens"
    with r show "synthesize tokens req = (Rejected 403 CsrfFailed, tokens)"
      by (intro synthesize_csrf_failure) auto
  }
  {
    fix req0
    assume r0: "receivedToken req0 = Some t"
    have "t = [] \<or> t \<notin> snd (synthesize tokens req0)"
      using r0 by (auto simp: synthesize_def)
    with r have "synthesize (snd (synthesize tokens req0)) req
        = (Rejected 403 CsrfFailed, snd (synthesize tokens req0))"
      by (intro synthesize_csrf_failure) auto
    then show "fst (synthesize (snd (synthesize tokens req0)) req) = Rejected 403 CsrfFailed"
      by simp
  }
  have "synthesize (expireCSRFToken tokens t) req
      = (Rejected 403 CsrfFailed, expireCSRFToken tokens t)"
    using r by (intro synthesize_csrf_failure) (simp add: expireCSRFToken_def)
  then show "fst (synthesize (expireCSRFToken tokens t) req) = Rejected 403 CsrfFailed"
    by simp
next
  fix m
  assume "fst (synthesize tokens req) = Rejected 403 m"
  then show "m = CsrfFailed"
    using validate_request_not_403 [of req m]
    by (auto simp: synthesize_def split: option.splits if_splits)
qed

theorem synthesize_csrf_rejection_generic_witness:
  "synthesize {''t1''}
     \<lparr>header_csrf = None, body_text = Str (js ''hello''), body_voice = None,
      body_speed = None, body_apiKey = KeyAbsent, body_csrfToken = Some ''t0''\<rparr>
     = (Rejected 403 CsrfFailed, {''t1''})
   \<and> fst (synthesize (snd (synthesize {''t0''}
       \<lparr>header_csrf = None, body_text = Str (js ''hello''), body_voice = None,
        body_speed = None, body_apiKey = KeyAbsent, body_csrfToken = Some ''t0''\<rparr>))
     \<lparr>header_csrf = None, body_text = Str (js ''hello''), body_voice = None,
      body_speed = None, body_apiKey = KeyAbsent, body_csrfToken = Some ''t0''\<rparr>)
     = Rejected 403 CsrfFailed
   \<and> fst (synthesize (expireCSRFToken {''t0''} ''t0'')
     \<lparr>header_csrf = None, body_text = Str (js ''hello''), body_voice = None,
      body_speed = None, body_apiKey = KeyAbsent, body_csrfToken = Some ''t0''\<rparr>)
     = Rejected 403 CsrfFailed"
proof -
  have r: "receivedToken \<lparr>header_csrf = None, body_text = Str (js ''hello''), body_voice = None,
      body_speed = None, body_apiKey = KeyAbsent, body_csrfToken = Some ''t0''\<rparr> = Some ''t0''"
    by (simp add: receivedToken_def)
  show ?thesis
    using r
      synthesize_csrf_rejection_generic [of
        "\<lparr>header_csrf = None, body_text = Str (js ''hello''), body_voice = None,
          body_speed = None, body_apiKey = KeyAbsent, body_csrfToken = Some ''t0''\<rparr>" "{''t1''}"]
      synthesize_csrf_rejection_generic [of
        "\<lparr>header_csrf = None, body_text = Str (js ''hello''), body_voice = None,
          body_speed = None, body_apiKey = KeyAbsent, body_csrfToken = Some ''t0''\<rparr>" "{''t0''}"]
    by auto
qed

text \<open>
  The first use of an issued token does pass the check: the request below is handed
  to the provider, with its text sanitized, and the token is gone from the store.
\<close>

lemma synthesize_forwards:
  "synthesize (issueCSRFToken {} ''t0'')
     \<lparr>header_csrf = None, body_text = Str (js ''<b>hello</b>''), body_voice = None,
      body_speed = None, body_apiKey = KeyAbsent, body_csrfToken = Some ''t0''\<rparr>
     = (Forwarded \<lparr>input_text = js ''hello'', languageCode = ''ja-JP'',
          voice_name = ''ja-JP-Neural2-B'', speakingRate = Finite 1\<rparr>, {})"
  by (simp add: synthesize_def receivedToken_def validate_request_def validateInput_text_def
      validateInput_voice_def validateInput_speed_def validateInput_apiKey_def allowedVoices_def
      issueCSRFToken_def sanitizer_eval)

section \<open>Properties of the credential vault\<close>

lemma getEncryptionKey_caches:
  "getEncryptionKey P fresh v = (Inr key, v') \<Longrightarrow> encryptionKey v' = Some key"
  by (auto simp: getEncryptionKey_def split: option.splits)

lemma getEncryptionKey_keeps_item:
  "item (snd (getEncryptionKey P fresh v)) = item v"
  by (auto simp: getEncryptionKey_def split: option.splits)

lemma getEncryptionKey_cached:
  "encryptionKey v = Some key \<Longrightarrow> getEncryptionKey P fresh v = (Inr key, v)"
  by (simp add: getEncryptionKey_def)


lemma getEncryptionKey_keeps_timers:
  "getEncryptionKey P fresh v = (r, v') \<Longrightarrow> timers v' = timers v"
  by (auto simp: getEncryptionKey_def split: option.splits)

lemma run_timers_none_due:
  "\<forall>due\<in>set (timers v). now < due \<Longrightarrow> run_timers now v = v"
  by (auto simp: run_timers_def list_ex_iff)

lemma saveApiKeySecurely_refuses_empty:
  "saveApiKeySecurely P fresh iv now v (Str []) = (Inl InvalidApiKey, v)"
  by (simp add: saveApiKeySecurely_def)

text \<open>
  The round trip, where no timer comes in between. Let \<open>k\<close> be a secret that is not
  empty, in a vault whose key can be had, on a platform that encrypts \<open>k\<close>, decrypts
  under the same key and vector what it encrypted, and decodes the encoding of \<open>k\<close> to
  \<open>k\<close>. When less than 30 minutes have passed since the save and no timer of an earlier
  save is due by then, \<open>getApiKeySecurely\<close> returns exactly \<open>k\<close>.
\<close>

lemma vault_round_trip_no_timer_due:
  assumes "k \<noteq> []"
    and "fst (getEncryptionKey P fresh v) = Inr key"
    and "encrypt P key iv (encode P k) = Some c"
    and "decrypt P key iv c = Some (encode P k)"
    and "decode P (encode P k) = k"
    and "now' < now + 30 * 60 * 1000"
    and "\<forall>due\<in>set (timers v). now' < due"
  shows "fst (saveApiKeySecurely P fresh iv now v (Str k)) = Inr True
       \<and> fst (getApiKeySecurely P fresh' now'
               (run_timers now' (snd (saveApiKeySecurely P fresh iv now v (Str k)))))
           = Inr (Some k)"
proof -
  obtain v' where g: "getEncryptionKey P fresh v = (Inr key, v')"
    using assms(2) by (cases "getEncryptionKey P fresh v") auto
  define v1 where "v1 = v'\<lparr>item := Some (Blob c iv now),
      timers := timers v' @ [now + 30 * 60 * 1000]\<rparr>"
  have s: "saveApiKeySecurely P fresh iv now v (Str k) = (Inr True, v1)"
    using assms(1,3) g by (simp add: saveApiKeySecurely_def v1_def)
  have "timers v1 = timers v @ [now + 30 * 60 * 1000]"
    using getEncryptionKey_keeps_timers [OF g] by (simp add: v1_def)
  then have "\<forall>due\<in>set (timers v1). now' < due"
    using assms(6,7) by auto
  then have r: "run_timers now' v1 = v1"
    by (rule run_timers_none_due)
  have "encryptionKey v1 = Some key"
    using getEncryptionKey_caches [OF g] by (simp add: v1_def)
  then have k1: "getEncryptionKey P fresh' v1 = (Inr key, v1)"
    by (rule getEncryptionKey_cached)
  have i1: "item v1 = Some (Blob c iv now)"
    by (simp add: v1_def)
  have "getApiKey_try P fresh' now' v1 = (Inr (Some k), v1)"
    using assms(4,5,6) k1 i1 by (simp add: getApiKey_try_def)
  then have "getApiKeySecurely P fresh' now' v1 = (Inr (Some k), v1)"
    by (simp add: getApiKeySecurely_def)
  with s r show ?thesis by simp
qed

text \<open>
  Claim C6 fails on the code. Every save sets a timer that clears the vault 30 minutes
  later, and a later save does not cancel it. The key \<open>AIzaA\<close> is saved at time 0 and
  the key \<open>AIzaB\<close> at 29 minutes; at 30 minutes the timer of the first save fires and
  clears the blob and the key of the second. \<open>getApiKeySecurely\<close> at 31 minutes, two
  minutes after the save of \<open>AIzaB\<close> and with no clear and no new key from the caller,
  answers \<open>null\<close>. Without the first save the same save and the same call return
  \<open>AIzaB\<close>.
\<close>

theorem vault_stale_timer_clears_later_save:
  "(let v1 = snd (saveApiKeySecurely demo_platform (Some [1, 2]) [7] 0 newVault
                    (Str (js ''AIzaA'')));
        v2 = snd (saveApiKeySecurely demo_platform None [8] 1740000 (run_timers 1740000 v1)
                    (Str (js ''AIzaB'')));
        w2 = snd (saveApiKeySecurely demo_platform (Some [1, 2]) [8] 1740000 newVault
                    (Str (js ''AIzaB'')))
    in fst (saveApiKeySecurely demo_platform (Some [1, 2]) [7] 0 newVault (Str (js ''AIzaA'')))
         = Inr True
     \<and> fst (saveApiKeySecurely demo_platform None [8] 1740000 (run_timers 1740000 v1)
              (Str (js ''AIzaB''))) = Inr True
     \<and> item v2 = Some (Blob ([1, 2] @ [8] @ js ''AIzaB'') [8] 1740000)
     \<and> timers v2 = [1800000, 3540000]
     \<and> item (run_timers 1860000 v2) = None
     \<and> fst (getApiKeySecurely demo_platform None 1860000 (run_timers 1860000 v2)) = Inr None
     \<and> fst (getApiKeySecurely demo_platform None 1860000 (run_timers 1860000 w2))
         = Inr (Some (js ''AIzaB'')))"
  by (simp add: saveApiKeySecurely_def getApiKeySecurely_def getApiKey_try_def
      getEncryptionKey_def run_timers_def clearApiKey_def newVault_def demo_platform_def
      js_def Let_def)



section \<open>Properties of the sibling variants\<close>

lemma replace_all_tag_id: "no_tag s \<Longrightarrow> replace_all m_tag s = s"
  by (induction s) (auto simp: m_tag_def)

lemma trim_head: "trim s \<noteq> [] \<Longrightarrow> \<not> is_space (hd (trim s))"
proof -
  assume ne: "trim s \<noteq> []"
  define a where "a = dropWhile is_space s"
  have p: "prefix (trim s) a"
    unfolding trim_def a_def
    by (metis prefixI rev_append rev_rev_ident takeWhile_dropWhile_id)
  with ne have "a \<noteq> []" by auto
  then have "\<not> is_space (hd a)"
    unfolding a_def by (rule hd_dropWhile)
  moreover have "hd (trim s) = hd a"
    using p ne by (auto simp: prefix_def)
  ultimately show ?thesis by simp
qed

lemma trim_idem: "trim (trim s) = trim s"
proof (cases "trim s = []")
  case True
  have "trim [] = []" by (simp add: trim_def)
  with True show ?thesis by simp
next
  case False
  then have "dropWhile is_space (trim s) = trim s"
    using trim_head [of s] by (cases "trim s") auto
  then have "trim (trim s) = rev (dropWhile is_space (rev (trim s)))"
    by (simp add: trim_def)
  also have "rev (trim s) = dropWhile is_space (rev (dropWhile is_space s))"
    by (simp add: trim_def)
  also have "dropWhile is_space \<dots> = dropWhile is_space (rev (dropWhile is_space s))"
    by (rule dropWhile_idem)
  finally show ?thesis by (simp add: trim_def)
qed

text \<open>
  The server variant is idempotent: its output has no complete tag and no control
  character, is at most 5000 code units long and is trimmed, so a second pass finds
  nothing to do.
\<close>

lemma sanitizeText_server_idempotent:
  "sanitizeText_server (Str (sanitizeText_server v)) = sanitizeText_server v"
proof (cases v)
  case NotString
  then show ?thesis
    by (simp add: sanitizeText_server_def m_tag_def trim_def)
next
  case (Str s)
  define cut where "cut = take 5000 (filter (\<lambda>c. \<not> is_control c) (replace_all m_tag s))"
  define y where "y = trim cut"
  have y: "sanitizeText_server v = y"
    by (simp add: Str sanitizeText_server_def y_def cut_def)
  have "subseq y cut"
    unfolding y_def by (rule subseq_trim)
  also have "subseq cut (filter (\<lambda>c. \<not> is_control c) (replace_all m_tag s))"
    unfolding cut_def by (rule subseq_take)
  finally have sub: "subseq y (filter (\<lambda>c. \<not> is_control c) (replace_all m_tag s))" .
  have "subseq (filter (\<lambda>c. \<not> is_control c) (replace_all m_tag s)) (replace_all m_tag s)"
    by simp
  with sub have "subseq y (replace_all m_tag s)"
    by (rule subseq_order.order_trans)
  then have 1: "replace_all m_tag y = y"
    using no_tag_strip no_tag_subseq replace_all_tag_id by blast
  have "set y \<subseteq> set (filter (\<lambda>c. \<not> is_control c) (replace_all m_tag s))"
    using sub by (rule subseq_set)
  then have 2: "filter (\<lambda>c. \<not> is_control c) y = y"
    by (auto simp: filter_id_conv)
  have "length y \<le> length cut"
    using \<open>subseq y cut\<close> by (rule list_emb_length)
  also have "length cut \<le> 5000"
    by (simp add: cut_def)
  finally have 3: "take 5000 y = y"
    by simp
  have 4: "trim y = y"
    unfolding y_def by (rule trim_idem)
  show ?thesis
    unfolding y by (simp add: sanitizeText_server_def 1 2 3 4)
qed

text \<open>
  \<open>SecurityMiddleware.csrfProtection\<close>, which no server of the repository installs, keeps
  the status 403 and the code \<open>INVALID_CSRF_TOKEN\<close> for every refusal of
  \<open>validateCSRFToken\<close>, and hands the reason on in the error text.
\<close>

lemma csrfProtection_echoes_reason:
  "fst (validateCSRFToken su t s now) = Inl e \<Longrightarrow>
   fst (csrfProtection su (Some t) (Some s) now) = Respond 403 (ErrorMessage e) INVALID_CSRF_TOKEN"
  by (cases "validateCSRFToken su t s now") (auto simp: csrfProtection_def)

text \<open>
  \<open>loadApiKeySecurely\<close> of the IndexedDB variant lets no error out either: whenever it
  answers, the answer is a value; with no entry it answers \<open>null\<close>; when the body raises
  (garbage, a key that cannot be retrieved, a decryption that rejects) it removes the
  entry and answers \<open>null\<close>. It answers unless there is a blob to decrypt and the
  retrieval of the key is never settled; then it does not answer at all.
\<close>

lemma loadApiKeySecurely_answers:
  "(\<forall>res. loadApiKeySecurely P retrieved entry = Some res \<longrightarrow> (\<exists>r. fst res = Inr r))
   \<and> (entry = None \<longrightarrow> loadApiKeySecurely P retrieved entry = Some (Inr None, None))
   \<and> (\<forall>e. loadApiKey_try P retrieved entry = Some (Inl e) \<longrightarrow>
         loadApiKeySecurely P retrieved entry = Some (Inr None, None))
   \<and> (loadApiKeySecurely P retrieved entry = None
         \<longleftrightarrow> retrieved = NeverSettled \<and> (\<exists>encrypted iv. entry = Some (Blob2 encrypted iv)))"
  by (auto simp: loadApiKeySecurely_def loadApiKey_try_def decryptApiKey_def
      split: sum.splits option.splits stored2.splits retrieval.splits)

end
